theory Spec2Isabelle
  imports Main "HOL-Library.Sublist"
begin

section \<open>Values exchanged with the SDK and the cluster\<close>

text \<open>
  The script \<^verbatim>\<open>index.js\<close> is a sequence of calls into the \<^verbatim>\<open>@solana/web3.js\<close>
  SDK and, through its \<^verbatim>\<open>Connection\<close>, into a remote cluster. Neither is part of the
  repository: both are parameters of the model, and so is the key pair \<^verbatim>\<open>payer\<close> that
  the script decodes once when it is loaded. What the script itself decides is which
  calls are made, in which order, with which arguments, and what is printed; that is
  what the definitions below compute.
\<close>

text \<open>A public key, by its base-58 text (what \<^verbatim>\<open>toBase58()\<close> and \<^verbatim>\<open>toString()\<close> print).\<close>

datatype pubkey = PublicKey string

record keypair =
  publicKey :: pubkey
  secretKey :: string

text \<open>
  What a call can throw (or a promise reject with): the \<^verbatim>\<open>TypeError\<close> of the JavaScript
  runtime on reading a property of \<^verbatim>\<open>null\<close> (with the property's name), and whatever the
  SDK or the cluster rejects a request with.
\<close>

datatype exn = TypeError string | Rejected string

datatype commitment = Finalized

record blockhash_info =
  blockhash :: string
  lastValidBlockHeight :: nat

text \<open>The argument of \<^verbatim>\<open>confirmTransaction\<close>: both blockhash fields and the signature.\<close>

record confirm_args = blockhash_info +
  signature :: string

text \<open>The value \<^verbatim>\<open>confirmTransaction\<close> resolves to; the script discards it.\<close>

datatype sig_result = SigResult (err: "string option")

record lookup_table_state =
  addresses :: "pubkey list"

record lookup_table_account =
  key :: pubkey
  state :: lookup_table_state

text \<open>The fields given to \<^verbatim>\<open>new web3.TransactionMessage({...})\<close>.\<close>

record 'ix transaction_message =
  payerKey :: pubkey
  recentBlockhash :: string
  instructions :: "'ix list"

text \<open>
  The SDK, over its own types of instructions \<open>'ix\<close>, compiled messages \<open>'msg\<close> and
  versioned transactions \<open>'tx\<close>. Arguments that the script passes as an object are
  listed in the order of the comment. The builders of instructions and the constructor
  of a transaction compute a value from their arguments; compiling, signing and
  serializing may also throw.
\<close>

record ('ix, 'msg, 'tx) sdk =
  createLookupTable :: "pubkey \<Rightarrow> pubkey \<Rightarrow> nat \<Rightarrow> 'ix \<times> pubkey"
    \<comment> \<open>authority, payer, recentSlot; returns the instruction and the table address\<close>
  extendLookupTable :: "pubkey \<Rightarrow> pubkey \<Rightarrow> pubkey \<Rightarrow> pubkey list \<Rightarrow> 'ix"
    \<comment> \<open>payer, authority, lookupTable, addresses\<close>
  transfer :: "pubkey \<Rightarrow> pubkey \<Rightarrow> nat \<Rightarrow> 'ix"
    \<comment> \<open>fromPubkey, toPubkey, lamports\<close>
  compileToV0Message ::
    "'ix transaction_message \<Rightarrow> lookup_table_account list option \<Rightarrow> exn + 'msg"
    \<comment> \<open>\<open>None\<close> when the script calls it with no argument\<close>
  newVersionedTransaction :: "'msg \<Rightarrow> 'tx"
  sign :: "'tx \<Rightarrow> keypair list \<Rightarrow> exn + 'tx"
    \<comment> \<open>JavaScript signs in place; the model returns the signed transaction\<close>
  serialize :: "'tx \<Rightarrow> exn + nat list"
    \<comment> \<open>the bytes of the transaction\<close>

text \<open>
  The connection to the cluster. The cluster is a state \<open>'w\<close> that every request may
  read and change; a request resolves to a value or rejects.
\<close>

record ('tx, 'w) connection =
  getSlot :: "'w \<Rightarrow> (exn + nat) \<times> 'w"
  getLatestBlockhash :: "commitment \<Rightarrow> 'w \<Rightarrow> (exn + blockhash_info) \<times> 'w"
  sendTransaction :: "'tx \<Rightarrow> 'w \<Rightarrow> (exn + string) \<times> 'w"
  confirmTransaction :: "confirm_args \<Rightarrow> 'w \<Rightarrow> (exn + sig_result) \<times> 'w"
  getAddressLookupTable :: "pubkey \<Rightarrow> 'w \<Rightarrow> (exn + lookup_table_account option) \<times> 'w"
    \<comment> \<open>the \<^verbatim>\<open>value\<close> field of the response: \<open>None\<close> is \<^verbatim>\<open>null\<close>\<close>

section \<open>What a run does: console lines and calls, in order\<close>

text \<open>One constructor for each \<^verbatim>\<open>console.log\<close> of the script, with the values it prints.\<close>

datatype log_line =
    L_blockhash nat
      \<comment> \<open>lines 18 and 136: "Fetched latest blockhash. Last valid height:"\<close>
  | L_compiled
      \<comment> \<open>line 26: "Compiled transaction message"\<close>
  | L_signed
      \<comment> \<open>line 33: "Transaction Signed"\<close>
  | L_confirmed string
      \<comment> \<open>line 47: "Transaction succesfully confirmed!" and the explorer link of the txid\<close>
  | L_slot nat
      \<comment> \<open>line 52\<close>
  | L_table_address pubkey
      \<comment> \<open>line 62\<close>
  | L_created
      \<comment> \<open>line 68: "Create lookup table"\<close>
  | L_entries pubkey
      \<comment> \<open>line 87: "Lookup Table Entries:" and the explorer link of the table\<close>
  | L_account "lookup_table_account option"
      \<comment> \<open>line 100\<close>
  | L_cluster_address pubkey
      \<comment> \<open>line 104: "Table address from cluster:"\<close>
  | L_entry nat pubkey
      \<comment> \<open>line 109: index and address\<close>
  | L_fetched_table pubkey
      \<comment> \<open>line 119: "Fetched lookup table:"\<close>
  | L_compiled_txs
      \<comment> \<open>line 156: "Compiled transactions"\<close>
  | L_size_without nat
      \<comment> \<open>line 159: "Transaction size without address lookup table:"\<close>
  | L_size_with nat
      \<comment> \<open>line 160: "Transaction size with address lookup table:"\<close>
  | L_step1
  | L_waiting
  | L_step2
  | L_step3
      \<comment> \<open>lines 164, 171, 181 and 189\<close>

datatype ('ix, 'tx) event =
    Log log_line
  | Ev_getSlot
  | Ev_getLatestBlockhash commitment
  | Ev_sendTransaction 'tx
  | Ev_confirmTransaction confirm_args
  | Ev_getAddressLookupTable pubkey
  | Ev_setTimeout nat
  | Ev_compileToV0Message "'ix transaction_message" "lookup_table_account list option"
  | Ev_sign 'tx "keypair list"
  | Ev_serialize 'tx

text \<open>
  A piece of the script: from the state of the cluster to what it returns or throws,
  the events it produced, and the state it leaves.
\<close>

type_synonym ('e, 'w, 'a) prog = "'w \<Rightarrow> (exn + 'a) \<times> 'e list \<times> 'w"

definition ret :: "'a \<Rightarrow> ('e, 'w, 'a) prog" where
  "ret x = (\<lambda>w. (Inr x, [], w))"

definition throw :: "exn \<Rightarrow> ('e, 'w, 'a) prog" where
  "throw e = (\<lambda>w. (Inl e, [], w))"

text \<open>Statement after statement (and \<^verbatim>\<open>await\<close>): a throw skips what follows.\<close>

definition then_do :: "('e, 'w, 'a) prog \<Rightarrow> ('a \<Rightarrow> ('e, 'w, 'b) prog) \<Rightarrow> ('e, 'w, 'b) prog" where
  "then_do m k = (\<lambda>w.
     case m w of
       (Inl e, t, w1) \<Rightarrow> (Inl e, t, w1)
     | (Inr x, t, w1) \<Rightarrow> (case k x w1 of (r, t2, w2) \<Rightarrow> (r, t @ t2, w2)))"

definition console_log :: "log_line \<Rightarrow> (('ix, 'tx) event, 'w, unit) prog" where
  "console_log l = (\<lambda>w. (Inr (), [Log l], w))"

text \<open>An awaited request to the cluster.\<close>

definition request :: "'e \<Rightarrow> ('w \<Rightarrow> (exn + 'a) \<times> 'w) \<Rightarrow> ('e, 'w, 'a) prog" where
  "request e f = (\<lambda>w. case f w of (r, w1) \<Rightarrow> (r, [e], w1))"

text \<open>A call of the SDK that computes locally and may throw.\<close>

definition sdk_call :: "'e \<Rightarrow> exn + 'a \<Rightarrow> ('e, 'w, 'a) prog" where
  "sdk_call e r = (\<lambda>w. (r, [e], w))"

section \<open>The functions of \<^verbatim>\<open>index.js\<close>\<close>

text \<open>
  \<^verbatim>\<open>createAndSendV0Tx\<close> (lines 12 to 48). The second argument the script gives to
  \<^verbatim>\<open>sendTransaction\<close> is the connection itself, in the place of the options; it is a
  fixed value and is left out of the event.
\<close>

definition createAndSendV0Tx ::
  "('ix, 'msg, 'tx) sdk \<Rightarrow> ('tx, 'w) connection \<Rightarrow> keypair \<Rightarrow> 'ix list \<Rightarrow>
     (('ix, 'tx) event, 'w, unit) prog" where
  "createAndSendV0Tx web3 conn payer arrayOfInstructions =
     then_do (request (Ev_getLatestBlockhash Finalized) (getLatestBlockhash conn Finalized))
       (\<lambda>latestBlockhash.
     then_do (console_log (L_blockhash (lastValidBlockHeight latestBlockhash))) (\<lambda>_.
     let message = \<lparr>payerKey = publicKey payer,
                    recentBlockhash = blockhash latestBlockhash,
                    instructions = arrayOfInstructions\<rparr> in
     then_do (sdk_call (Ev_compileToV0Message message None)
                (compileToV0Message web3 message None)) (\<lambda>messageV0.
     then_do (console_log L_compiled) (\<lambda>_.
     let transactionV0 = newVersionedTransaction web3 messageV0 in
     then_do (sdk_call (Ev_sign transactionV0 [payer]) (sign web3 transactionV0 [payer]))
       (\<lambda>signedV0.
     then_do (console_log L_signed) (\<lambda>_.
     then_do (request (Ev_sendTransaction signedV0) (sendTransaction conn signedV0)) (\<lambda>txid.
     let args = \<lparr>blockhash = blockhash latestBlockhash,
                 lastValidBlockHeight = lastValidBlockHeight latestBlockhash,
                 signature = txid\<rparr> in
     then_do (request (Ev_confirmTransaction args) (confirmTransaction conn args)) (\<lambda>_.
     console_log (L_confirmed txid)))))))))"

text \<open>\<^verbatim>\<open>createALTs\<close> (lines 50 to 71).\<close>

definition createALTs ::
  "('ix, 'msg, 'tx) sdk \<Rightarrow> ('tx, 'w) connection \<Rightarrow> keypair \<Rightarrow>
     (('ix, 'tx) event, 'w, pubkey) prog" where
  "createALTs web3 conn payer =
     then_do (request Ev_getSlot (getSlot conn)) (\<lambda>slot.
     then_do (console_log (L_slot slot)) (\<lambda>_.
     case createLookupTable web3 (publicKey payer) (publicKey payer) slot of
       (lookupTableInst, lookupTableAddress) \<Rightarrow>
     then_do (console_log (L_table_address lookupTableAddress)) (\<lambda>_.
     then_do (createAndSendV0Tx web3 conn payer [lookupTableInst]) (\<lambda>_.
     then_do (console_log L_created) (\<lambda>_.
     ret lookupTableAddress)))))"

text \<open>\<^verbatim>\<open>addAddress\<close> (lines 73 to 88).\<close>

definition addAddress ::
  "('ix, 'msg, 'tx) sdk \<Rightarrow> ('tx, 'w) connection \<Rightarrow> keypair \<Rightarrow> pubkey \<Rightarrow> pubkey list \<Rightarrow>
     (('ix, 'tx) event, 'w, unit) prog" where
  "addAddress web3 conn payer lookupTableAddress addrs =
     (let extendInstruction =
        extendLookupTable web3 (publicKey payer) (publicKey payer) lookupTableAddress addrs in
      then_do (createAndSendV0Tx web3 conn payer [extendInstruction]) (\<lambda>_.
      console_log (L_entries lookupTableAddress)))"

text \<open>The loop of \<^verbatim>\<open>fetchALTs\<close> (lines 107 to 110), from index \<open>i\<close> on.\<close>

fun log_addresses :: "nat \<Rightarrow> pubkey list \<Rightarrow> (('ix, 'tx) event, 'w, unit) prog" where
  "log_addresses i [] = ret ()"
| "log_addresses i (address # rest) =
     then_do (console_log (L_entry i address)) (\<lambda>_. log_addresses (Suc i) rest)"

text \<open>
  \<^verbatim>\<open>fetchALTs\<close> (lines 90 to 113). Line 104 reads \<^verbatim>\<open>lookupTableAccount.key\<close> with no test
  of the account: on \<^verbatim>\<open>null\<close> the runtime throws a \<^verbatim>\<open>TypeError\<close>.
\<close>

definition fetchALTs ::
  "('tx, 'w) connection \<Rightarrow> pubkey \<Rightarrow>
     (('ix, 'tx) event, 'w, lookup_table_account option) prog" where
  "fetchALTs conn lookupTableAddress =
     then_do (request (Ev_getAddressLookupTable lookupTableAddress)
                (getAddressLookupTable conn lookupTableAddress)) (\<lambda>lookupTableAccount.
     then_do (console_log (L_account lookupTableAccount)) (\<lambda>_.
     case lookupTableAccount of
       None \<Rightarrow> throw (TypeError ''key'')
     | Some account \<Rightarrow>
         then_do (console_log (L_cluster_address (key account))) (\<lambda>_.
         then_do (log_addresses 0 (addresses (state account))) (\<lambda>_.
         ret lookupTableAccount))))"

text \<open>
  \<^verbatim>\<open>compareTxSize\<close> (lines 115 to 161). The amount \<^verbatim>\<open>0.01 * 100000000\<close> is the
  double \<open>1000000\<close>. In lines 159 and 160 the transaction is serialized before the
  line is printed.
\<close>

definition compareTxSize ::
  "('ix, 'msg, 'tx) sdk \<Rightarrow> ('tx, 'w) connection \<Rightarrow> keypair \<Rightarrow> pubkey \<Rightarrow>
     (('ix, 'tx) event, 'w, unit) prog" where
  "compareTxSize web3 conn payer lookupTableAddress =
     then_do (request (Ev_getAddressLookupTable lookupTableAddress)
                (getAddressLookupTable conn lookupTableAddress)) (\<lambda>fetched.
     case fetched of
       None \<Rightarrow> ret ()
     | Some lookupTable \<Rightarrow>
     then_do (console_log (L_fetched_table (key lookupTable))) (\<lambda>_.
     let txInstructions =
           map (\<lambda>address. transfer web3 (publicKey payer) address 1000000)
             (addresses (state lookupTable)) in
     then_do (request (Ev_getLatestBlockhash Finalized) (getLatestBlockhash conn Finalized))
       (\<lambda>latestBlockhash.
     then_do (console_log (L_blockhash (lastValidBlockHeight latestBlockhash))) (\<lambda>_.
     let message = \<lparr>payerKey = publicKey payer,
                    recentBlockhash = blockhash latestBlockhash,
                    instructions = txInstructions\<rparr> in
     then_do (sdk_call (Ev_compileToV0Message message (Some [lookupTable]))
                (compileToV0Message web3 message (Some [lookupTable])))
       (\<lambda>messageWithLookupTable.
     let unsignedWith = newVersionedTransaction web3 messageWithLookupTable in
     then_do (sdk_call (Ev_sign unsignedWith [payer]) (sign web3 unsignedWith [payer]))
       (\<lambda>transactionWithLookupTable.
     then_do (sdk_call (Ev_compileToV0Message message None)
                (compileToV0Message web3 message None))
       (\<lambda>messageWithoutLookupTable.
     let unsignedWithout = newVersionedTransaction web3 messageWithoutLookupTable in
     then_do (sdk_call (Ev_sign unsignedWithout [payer]) (sign web3 unsignedWithout [payer]))
       (\<lambda>transactionWithoutLookupTable.
     then_do (console_log L_compiled_txs) (\<lambda>_.
     then_do (sdk_call (Ev_serialize transactionWithoutLookupTable)
                (serialize web3 transactionWithoutLookupTable)) (\<lambda>bytesWithout.
     then_do (console_log (L_size_without (length bytesWithout))) (\<lambda>_.
     then_do (sdk_call (Ev_serialize transactionWithLookupTable)
                (serialize web3 transactionWithLookupTable)) (\<lambda>bytesWith.
     console_log (L_size_with (length bytesWith))))))))))))))"

text \<open>The four addresses of \<^verbatim>\<open>main\<close> (lines 174 to 179).\<close>

definition main_addresses :: "pubkey list" where
  "main_addresses =
     [PublicKey ''8Z17Y623ZjNV8xaAdxgn5ZkqkVTEo8Yc6uaapvcrFB62'',
      PublicKey ''846HwwmSGguDbipzs2xDYCsfyhi4j2LLiuQri11woums'',
      PublicKey ''FueGNmz4M2wphGnDL5RuH2fCo6EQxxtheVn6syGE4Fh1'',
      PublicKey ''8io2LqthLyQfFncj6QAaQ2q5d7z9WgRcVKrAz4DGNiee'']"

text \<open>
  The timer of line 172: while the script waits, the cluster moves on by itself, as
  \<open>elapse\<close> says.
\<close>

definition setTimeout :: "(nat \<Rightarrow> 'w \<Rightarrow> 'w) \<Rightarrow> nat \<Rightarrow> (('ix, 'tx) event, 'w, unit) prog" where
  "setTimeout elapse ms = (\<lambda>w. (Inr (), [Ev_setTimeout ms], elapse ms w))"

text \<open>\<^verbatim>\<open>main\<close> (lines 163 to 194).\<close>

definition main ::
  "('ix, 'msg, 'tx) sdk \<Rightarrow> ('tx, 'w) connection \<Rightarrow> (nat \<Rightarrow> 'w \<Rightarrow> 'w) \<Rightarrow> keypair \<Rightarrow>
     (('ix, 'tx) event, 'w, unit) prog" where
  "main web3 conn elapse payer =
     then_do (console_log L_step1) (\<lambda>_.
     then_do (createALTs web3 conn payer) (\<lambda>lookupTableAddress.
     then_do (console_log L_waiting) (\<lambda>_.
     then_do (setTimeout elapse 60000) (\<lambda>_.
     then_do (console_log L_step2) (\<lambda>_.
     then_do (addAddress web3 conn payer lookupTableAddress main_addresses) (\<lambda>_.
     then_do (console_log L_step3) (\<lambda>_.
     compareTxSize web3 conn payer lookupTableAddress)))))))"

section \<open>A scripted SDK and cluster, to run the functions on\<close>

text \<open>
  Instructions, messages and transactions as the terms that built them; the address of
  a table as a text made of the authority and the slot; the cluster as the number of
  requests it has served, with the table visible from the eighth request on. The two
  serialized sizes are placeholders: the script only reports what the SDK returns.
\<close>

datatype fx_ix =
    Fx_create pubkey pubkey nat
  | Fx_extend pubkey pubkey pubkey "pubkey list"
  | Fx_transfer pubkey pubkey nat

datatype fx_msg = Fx_msg "fx_ix transaction_message" "lookup_table_account list option"

datatype fx_tx = Fx_tx fx_msg "keypair list"

fun fx_derive :: "pubkey \<Rightarrow> nat \<Rightarrow> pubkey" where
  "fx_derive (PublicKey s) slot = PublicKey (s @ ''/'' @ replicate slot (CHR ''i''))"

definition fx_payer :: keypair where
  "fx_payer = \<lparr>publicKey = PublicKey ''Payer'', secretKey = ''secret''\<rparr>"

definition fx_table_address :: pubkey where
  "fx_table_address = PublicKey ''Payer/ii''"

definition fx_table :: lookup_table_account where
  "fx_table = \<lparr>key = fx_table_address, state = \<lparr>addresses = main_addresses\<rparr>\<rparr>"

definition fx_sdk :: "(fx_ix, fx_msg, fx_tx) sdk" where
  "fx_sdk = \<lparr>
     createLookupTable = (\<lambda>a p s. (Fx_create a p s, fx_derive a s)),
     extendLookupTable = Fx_extend,
     transfer = Fx_transfer,
     compileToV0Message = (\<lambda>m ts. Inr (Fx_msg m ts)),
     newVersionedTransaction = (\<lambda>m. Fx_tx m []),
     sign = (\<lambda>tx ks. case tx of Fx_tx m _ \<Rightarrow> Inr (Fx_tx m ks)),
     serialize = (\<lambda>tx. case tx of
        Fx_tx (Fx_msg m None) _ \<Rightarrow> Inr (replicate 7 0)
      | Fx_tx (Fx_msg m (Some ts)) _ \<Rightarrow> Inr (replicate 5 0))\<rparr>"

definition fx_conn :: "(fx_tx, nat) connection" where
  "fx_conn = \<lparr>
     getSlot = (\<lambda>w. (Inr 2, Suc w)),
     getLatestBlockhash =
       (\<lambda>c w. (Inr \<lparr>blockhash = ''hash'', lastValidBlockHeight = 900\<rparr>, Suc w)),
     sendTransaction = (\<lambda>tx w. (Inr ''txid'', Suc w)),
     confirmTransaction = (\<lambda>a w. (Inr (SigResult None), Suc w)),
     getAddressLookupTable =
       (\<lambda>a w. (Inr (if 7 \<le> w then Some fx_table else None), Suc w))\<rparr>"

text \<open>The same cluster, except that it rejects every confirmation.\<close>

definition fx_conn_unconfirmed :: "(fx_tx, nat) connection" where
  "fx_conn_unconfirmed =
     fx_conn\<lparr>confirmTransaction := (\<lambda>a w. (Inl (Rejected ''expired''), Suc w))\<rparr>"

text \<open>
  The same cluster, except that every confirmation resolves to a value that carries an
  error: the transaction was processed and failed.
\<close>

definition fx_conn_failed :: "(fx_tx, nat) connection" where
  "fx_conn_failed =
     fx_conn\<lparr>confirmTransaction := (\<lambda>a w. (Inr (SigResult (Some ''failed'')), Suc w))\<rparr>"

definition fx_elapse :: "nat \<Rightarrow> nat \<Rightarrow> nat" where
  "fx_elapse ms w = w"

section \<open>The order of calls\<close>

text \<open>
  The calls of a run without their arguments and without the console lines: what is
  asked of the SDK and of the cluster, in order.
\<close>

datatype step =
    S_getSlot
  | S_getLatestBlockhash
  | S_compile
  | S_sign
  | S_send
  | S_confirm
  | S_getTable
  | S_wait nat
  | S_serialize

fun step_of :: "('ix, 'tx) event \<Rightarrow> step list" where
  "step_of (Log l) = []"
| "step_of Ev_getSlot = [S_getSlot]"
| "step_of (Ev_getLatestBlockhash c) = [S_getLatestBlockhash]"
| "step_of (Ev_sendTransaction tx) = [S_send]"
| "step_of (Ev_confirmTransaction a) = [S_confirm]"
| "step_of (Ev_getAddressLookupTable a) = [S_getTable]"
| "step_of (Ev_setTimeout ms) = [S_wait ms]"
| "step_of (Ev_compileToV0Message m ts) = [S_compile]"
| "step_of (Ev_sign tx ks) = [S_sign]"
| "step_of (Ev_serialize tx) = [S_serialize]"

definition steps :: "('ix, 'tx) event list \<Rightarrow> step list" where
  "steps t = concat (map step_of t)"

text \<open>The calls of one submission, of the size comparison, and of the whole of \<^verbatim>\<open>main\<close>.\<close>

definition submit_steps :: "step list" where
  "submit_steps = [S_getLatestBlockhash, S_compile, S_sign, S_send, S_confirm]"

definition compare_steps :: "step list" where
  "compare_steps =
     [S_getTable, S_getLatestBlockhash, S_compile, S_sign, S_compile, S_sign,
      S_serialize, S_serialize]"

definition main_steps :: "step list" where
  "main_steps =
     (S_getSlot # submit_steps) @ ([S_wait 60000] @ (submit_steps @ compare_steps))"

text \<open>
  A piece of the script stays within a list of calls when every run makes a prefix of
  it; it makes exactly the list when, besides, every run that returns made all of it.
\<close>

definition runs_within :: "(('ix, 'tx) event, 'w, 'a) prog \<Rightarrow> step list \<Rightarrow> bool" where
  "runs_within m S \<longleftrightarrow> (\<forall>w r t w2. m w = (r, t, w2) \<longrightarrow> prefix (steps t) S)"

definition runs_exactly :: "(('ix, 'tx) event, 'w, 'a) prog \<Rightarrow> step list \<Rightarrow> bool" where
  "runs_exactly m S \<longleftrightarrow>
     (\<forall>w r t w2. m w = (r, t, w2) \<longrightarrow> prefix (steps t) S \<and> (isl r \<or> steps t = S))"

section \<open>Running a sequence\<close>

text \<open>A run of \<open>then_do m k\<close> either stops where \<open>m\<close> throws or goes on with \<open>k\<close>.\<close>

lemma then_do_cases:
  assumes "then_do m k w = (r, t, w2)"
  obtains (thrown) e where "m w = (Inl e, t, w2)" and "r = Inl e"
  | (returned) x t1 w1 t2 where "m w = (Inr x, t1, w1)" and "k x w1 = (r, t2, w2)"
      and "t = t1 @ t2"
proof (cases "m w")
  case (fields a t1 w1)
  show ?thesis
  proof (cases a)
    case (Inl e)
    with fields assms thrown show ?thesis by (simp add: then_do_def)
  next
    case (Inr x)
    obtain r' t2 w' where k: "k x w1 = (r', t2, w')" by (cases "k x w1")
    with Inr fields assms returned show ?thesis by (simp add: then_do_def)
  qed
qed

lemma console_log_then [simp]:
  "then_do (console_log l) k w = (case k () w of (r, t, w2) \<Rightarrow> (r, Log l # t, w2))"
  by (simp add: then_do_def console_log_def)

lemma request_then:
  "then_do (request e f) k w =
     (case f w of
        (Inl x, w1) \<Rightarrow> (Inl x, [e], w1)
      | (Inr y, w1) \<Rightarrow> (case k y w1 of (r, t, w2) \<Rightarrow> (r, e # t, w2)))"
  by (simp add: then_do_def request_def split: prod.splits sum.splits)

lemma sdk_call_then:
  "then_do (sdk_call e c) k w =
     (case c of
        Inl x \<Rightarrow> (Inl x, [e], w)
      | Inr y \<Rightarrow> (case k y w of (r, t, w2) \<Rightarrow> (r, e # t, w2)))"
  by (simp add: then_do_def sdk_call_def split: prod.splits sum.splits)

lemma console_log_run: "console_log l w = (Inr (), [Log l], w)"
  by (simp add: console_log_def)

text \<open>What \<^verbatim>\<open>fetchALTs\<close> does on \<^verbatim>\<open>null\<close>, on any cluster.\<close>

lemma fetchALTs_absent:
  "getAddressLookupTable conn a w = (Inr None, w1) \<Longrightarrow>
     fetchALTs conn a w = (Inl (TypeError ''key''), [Ev_getAddressLookupTable a, Log (L_account None)], w1)"
  by (simp add: fetchALTs_def request_then throw_def)

section \<open>The calls of each function\<close>

lemma steps_simps [simp]:
  "steps [] = []" "steps (e # t) = step_of e @ steps t" "steps (t @ t2) = steps t @ steps t2"
  by (simp_all add: steps_def)

lemma runs_within_prefix:
  assumes "runs_within m S" and "m w = (r, t, w2)"
  shows "prefix (steps t) S"
  using assms unfolding runs_within_def by blast

lemma runs_exactly_within: "runs_exactly m S \<Longrightarrow> runs_within m S"
  by (simp add: runs_exactly_def runs_within_def)

lemma runs_exactly_returned:
  assumes "runs_exactly m S" and "m w = (Inr x, t, w2)"
  shows "steps t = S"
proof -
  from assms have "isl (fst (m w)) \<or> steps t = S"
    unfolding runs_exactly_def by fastforce
  with assms(2) show ?thesis by simp
qed

lemma runs_exactly_prefix:
  assumes "runs_exactly m S" and "m w = (r, t, w2)"
  shows "prefix (steps t) S"
  using assms unfolding runs_exactly_def by blast

text \<open>Sequencing appends the calls.\<close>

lemma exactly_then:
  assumes m: "runs_exactly m S1" and k: "\<And>x. runs_exactly (k x) S2"
  shows "runs_exactly (then_do m k) (S1 @ S2)"
  unfolding runs_exactly_def
proof (intro allI impI)
  fix w r t w2
  assume run: "then_do m k w = (r, t, w2)"
  then show "prefix (steps t) (S1 @ S2) \<and> (isl r \<or> steps t = S1 @ S2)"
  proof (cases rule: then_do_cases)
    case (thrown e)
    with m have "prefix (steps t) S1" by (simp add: runs_exactly_prefix)
    with thrown show ?thesis by simp
  next
    case (returned x t1 w1 t2)
    from m returned(1) have "steps t1 = S1" by (rule runs_exactly_returned)
    moreover from k returned(2) have "prefix (steps t2) S2 \<and> (isl r \<or> steps t2 = S2)"
      unfolding runs_exactly_def by blast
    ultimately show ?thesis using returned(3) by auto
  qed
qed

lemma within_then:
  assumes m: "runs_exactly m S1" and k: "\<And>x. runs_within (k x) S2"
  shows "runs_within (then_do m k) (S1 @ S2)"
  unfolding runs_within_def
proof (intro allI impI)
  fix w r t w2
  assume run: "then_do m k w = (r, t, w2)"
  then show "prefix (steps t) (S1 @ S2)"
  proof (cases rule: then_do_cases)
    case (thrown e)
    with m have "prefix (steps t) S1" by (simp add: runs_exactly_prefix)
    with thrown show ?thesis by simp
  next
    case (returned x t1 w1 t2)
    from m returned(1) have "steps t1 = S1" by (rule runs_exactly_returned)
    moreover from k returned(2) have "prefix (steps t2) S2"
      unfolding runs_within_def by blast
    ultimately show ?thesis using returned(3) by auto
  qed
qed

lemma exactly_log: "runs_exactly (console_log l) []"
  by (simp add: runs_exactly_def console_log_def)

lemma exactly_ret: "runs_exactly (ret x) []"
  by (simp add: runs_exactly_def ret_def)

lemma exactly_request: "step_of e = [s] \<Longrightarrow> runs_exactly (request e f) [s]"
  by (auto simp: runs_exactly_def request_def split: prod.splits sum.splits)

lemma exactly_sdk_call: "step_of e = [s] \<Longrightarrow> runs_exactly (sdk_call e c) [s]"
  by (cases c) (auto simp: runs_exactly_def sdk_call_def)

lemma exactly_setTimeout: "runs_exactly (setTimeout elapse ms) [S_wait ms]"
  by (simp add: runs_exactly_def setTimeout_def)

lemma exactly_log_then:
  "(\<And>x. runs_exactly (k x) S) \<Longrightarrow> runs_exactly (then_do (console_log l) k) S"
  using exactly_then [OF exactly_log, of k S] by simp

lemma within_log_then:
  "(\<And>x. runs_within (k x) S) \<Longrightarrow> runs_within (then_do (console_log l) k) S"
  using within_then [OF exactly_log, of k S] by simp

lemma exactly_request_then:
  "step_of e = [s] \<Longrightarrow> (\<And>x. runs_exactly (k x) S) \<Longrightarrow>
     runs_exactly (then_do (request e f) k) (s # S)"
  using exactly_then [OF exactly_request, of e s k S f] by simp

lemma exactly_sdk_call_then:
  "step_of e = [s] \<Longrightarrow> (\<And>x. runs_exactly (k x) S) \<Longrightarrow>
     runs_exactly (then_do (sdk_call e c) k) (s # S)"
  using exactly_then [OF exactly_sdk_call, of e s k S c] by simp

text \<open>The functions of the script, one by one.\<close>

lemma createAndSendV0Tx_steps:
  "runs_exactly (createAndSendV0Tx web3 conn payer ixs) submit_steps"
  unfolding createAndSendV0Tx_def submit_steps_def Let_def
  by (intro exactly_request_then exactly_sdk_call_then exactly_log_then exactly_log) simp_all

lemma createALTs_steps:
  "runs_exactly (createALTs web3 conn payer) (S_getSlot # submit_steps)"
proof -
  have tail: "runs_exactly
      (case createLookupTable web3 (publicKey payer) (publicKey payer) slot of
         (lookupTableInst, lookupTableAddress) \<Rightarrow>
           then_do (console_log (L_table_address lookupTableAddress)) (\<lambda>_.
           then_do (createAndSendV0Tx web3 conn payer [lookupTableInst]) (\<lambda>_.
           then_do (console_log L_created) (\<lambda>_. ret lookupTableAddress))))
      submit_steps" for slot
  proof (cases "createLookupTable web3 (publicKey payer) (publicKey payer) slot")
    case (Pair i a)
    have "runs_exactly (then_do (createAndSendV0Tx web3 conn payer [i])
             (\<lambda>_. then_do (console_log L_created) (\<lambda>_. ret a))) (submit_steps @ [])"
      by (intro exactly_then createAndSendV0Tx_steps exactly_log_then exactly_ret)
    then show ?thesis using Pair by (simp add: exactly_log_then)
  qed
  show ?thesis
    unfolding createALTs_def
    by (intro exactly_request_then exactly_log_then tail) simp
qed

lemma addAddress_steps:
  "runs_exactly (addAddress web3 conn payer a addrs) submit_steps"
proof -
  have "runs_exactly (addAddress web3 conn payer a addrs) (submit_steps @ [])"
    unfolding addAddress_def Let_def
    by (intro exactly_then createAndSendV0Tx_steps exactly_log)
  then show ?thesis by simp
qed

lemma within_ret: "runs_within (ret x) S"
  by (simp add: runs_within_def ret_def)

lemma compareTxSize_steps:
  "runs_within (compareTxSize web3 conn payer a) compare_steps"
proof -
  have first: "runs_exactly (request (Ev_getAddressLookupTable a) (getAddressLookupTable conn a))
     [S_getTable]"
    by (simp add: exactly_request)
  have "runs_within (compareTxSize web3 conn payer a)
     ([S_getTable] @ [S_getLatestBlockhash, S_compile, S_sign, S_compile, S_sign,
      S_serialize, S_serialize])"
    unfolding compareTxSize_def Let_def
    apply (rule within_then [OF first])
    subgoal for fetched
      apply (cases fetched)
       apply (simp only: option.case within_ret)
      apply (simp only: option.case)
      apply (rule runs_exactly_within)
      apply (intro exactly_request_then exactly_sdk_call_then exactly_log_then exactly_log)
             apply simp_all
      done
    done
  then show ?thesis by (simp add: compare_steps_def)
qed

lemma main_steps_within:
  "runs_within (main web3 conn elapse payer) main_steps"
  unfolding main_def main_steps_def
  apply (rule within_log_then)
  apply (rule within_then [OF createALTs_steps])
  apply (rule within_log_then)
  apply (rule within_then [OF exactly_setTimeout])
  apply (rule within_log_then)
  apply (rule within_then [OF addAddress_steps])
  apply (rule within_log_then)
  apply (rule compareTxSize_steps)
  done

lemmas run_simps = request_then sdk_call_then console_log_run Let_def

section \<open>Runs that return\<close>

text \<open>
  What a returning run of each function has been answered and has done, call by call.
\<close>

lemma createAndSendV0Tx_returned:
  assumes "createAndSendV0Tx web3 conn payer ixs w = (Inr (), t, w3)"
  shows "\<exists>bh w1 msg tx txid w2 res.
     getLatestBlockhash conn Finalized w = (Inr bh, w1) \<and>
     compileToV0Message web3
       \<lparr>payerKey = publicKey payer, recentBlockhash = blockhash bh, instructions = ixs\<rparr>
       None = Inr msg \<and>
     sign web3 (newVersionedTransaction web3 msg) [payer] = Inr tx \<and>
     sendTransaction conn tx w1 = (Inr txid, w2) \<and>
     confirmTransaction conn
       \<lparr>blockhash = blockhash bh, lastValidBlockHeight = lastValidBlockHeight bh,
        signature = txid\<rparr> w2 = (Inr res, w3) \<and>
     t = [Ev_getLatestBlockhash Finalized,
          Log (L_blockhash (lastValidBlockHeight bh)),
          Ev_compileToV0Message
            \<lparr>payerKey = publicKey payer, recentBlockhash = blockhash bh,
             instructions = ixs\<rparr> None,
          Log L_compiled,
          Ev_sign (newVersionedTransaction web3 msg) [payer],
          Log L_signed,
          Ev_sendTransaction tx,
          Ev_confirmTransaction
            \<lparr>blockhash = blockhash bh, lastValidBlockHeight = lastValidBlockHeight bh,
             signature = txid\<rparr>,
          Log (L_confirmed txid)]"
  using assms
  by (auto simp add: createAndSendV0Tx_def run_simps split: prod.splits sum.splits)

lemma createALTs_returned_slot:
  assumes "createALTs web3 conn payer w = (Inr a, t, w3)"
  shows "\<exists>slot w1 t0.
     getSlot conn w = (Inr slot, w1) \<and>
     a = snd (createLookupTable web3 (publicKey payer) (publicKey payer) slot) \<and>
     createAndSendV0Tx web3 conn payer
       [fst (createLookupTable web3 (publicKey payer) (publicKey payer) slot)] w1
       = (Inr (), t0, w3) \<and>
     t = [Ev_getSlot, Log (L_slot slot), Log (L_table_address a)] @ t0 @ [Log L_created]"
  using assms
  by (auto simp add: createALTs_def then_do_def request_def console_log_def ret_def
      split: prod.splits sum.splits)

lemma addAddress_returned:
  assumes "addAddress web3 conn payer a addrs w = (Inr (), t, w3)"
  shows "\<exists>t0.
     createAndSendV0Tx web3 conn payer
       [extendLookupTable web3 (publicKey payer) (publicKey payer) a addrs] w
       = (Inr (), t0, w3) \<and>
     t = t0 @ [Log (L_entries a)]"
  using assms
  by (auto simp add: addAddress_def then_do_def console_log_def Let_def
      split: prod.splits sum.splits)

lemma compareTxSize_returned:
  assumes "compareTxSize web3 conn payer a w7 = (Inr (), t3, wz)"
  shows "\<exists>fetched w8.
     getAddressLookupTable conn a w7 = (Inr fetched, w8) \<and>
     (case fetched of
              None \<Rightarrow> t3 = [Ev_getAddressLookupTable a] \<and> wz = w8
            | Some lookupTable \<Rightarrow>
                (\<exists>bh3 mWith mWithout txWith txWithout bytesWithout bytesWith.
                   let message3 =
                         \<lparr>payerKey = (publicKey payer), recentBlockhash = blockhash bh3,
                          instructions =
                            map (\<lambda>address. transfer web3 (publicKey payer) address 1000000)
                              (addresses (state lookupTable))\<rparr>
                   in getLatestBlockhash conn Finalized w8 = (Inr bh3, wz) \<and>
                      compileToV0Message web3 message3 (Some [lookupTable]) = Inr mWith \<and>
                      compileToV0Message web3 message3 None = Inr mWithout \<and>
                      sign web3 (newVersionedTransaction web3 mWith) [payer] = Inr txWith \<and>
                      sign web3 (newVersionedTransaction web3 mWithout) [payer]
                        = Inr txWithout \<and>
                      serialize web3 txWithout = Inr bytesWithout \<and>
                      serialize web3 txWith = Inr bytesWith \<and>
                      t3 = [Ev_getAddressLookupTable a,
                            Log (L_fetched_table (key lookupTable)),
                            Ev_getLatestBlockhash Finalized,
                            Log (L_blockhash (lastValidBlockHeight bh3)),
                            Ev_compileToV0Message message3 (Some [lookupTable]),
                            Ev_sign (newVersionedTransaction web3 mWith) [payer],
                            Ev_compileToV0Message message3 None,
                            Ev_sign (newVersionedTransaction web3 mWithout) [payer],
                            Log L_compiled_txs,
                            Ev_serialize txWithout,
                            Log (L_size_without (length bytesWithout)),
                            Ev_serialize txWith,
                            Log (L_size_with (length bytesWith))]))"
  using assms
  by (auto simp add: compareTxSize_def run_simps ret_def
      split: prod.splits sum.splits option.splits)

lemma main_returned:
  assumes "main web3 conn elapse payer w = (Inr (), t, wz)"
  shows "\<exists>a t1 w1 t2 w2 t3.
     createALTs web3 conn payer w = (Inr a, t1, w1) \<and>
     addAddress web3 conn payer a main_addresses (elapse 60000 w1) = (Inr (), t2, w2) \<and>
     compareTxSize web3 conn payer a w2 = (Inr (), t3, wz) \<and>
     t = Log L_step1 # t1 @ [Log L_waiting, Ev_setTimeout 60000, Log L_step2] @ t2
           @ [Log L_step3] @ t3"
  using assms
  by (auto simp add: main_def then_do_def console_log_def setTimeout_def
      split: prod.splits sum.splits)

section \<open>The claims\<close>

subsection \<open>The size comparison\<close>

text \<open>
  Claim C1. When the table is found and \<^verbatim>\<open>compareTxSize\<close> returns, it has fetched one
  blockhash and compiled the same message (the payer's key, that blockhash, one transfer
  from the payer to each address of the table) twice: first with the fetched table,
  then with no table. Both messages are wrapped and signed by the payer alone in the same
  way, so the two transactions differ only in the table given to the compilation; then
  it has printed the length of the serialized bytes of the one without the table and of
  the one with it.
\<close>

theorem compareTxSize_builds_both:
  assumes "compareTxSize web3 conn payer a w = (Inr (), t, w2)"
      and "getAddressLookupTable conn a w = (Inr (Some lookupTable), w1)"
  shows "\<exists>bh mWith mWithout txWith txWithout bytesWithout bytesWith.
     getLatestBlockhash conn Finalized w1 = (Inr bh, w2) \<and>
     (let message = \<lparr>payerKey = publicKey payer, recentBlockhash = blockhash bh,
                     instructions = map (\<lambda>address. transfer web3 (publicKey payer) address 1000000)
                                      (addresses (state lookupTable))\<rparr> in
      compileToV0Message web3 message (Some [lookupTable]) = Inr mWith \<and>
      compileToV0Message web3 message None = Inr mWithout \<and>
      sign web3 (newVersionedTransaction web3 mWith) [payer] = Inr txWith \<and>
      sign web3 (newVersionedTransaction web3 mWithout) [payer] = Inr txWithout \<and>
      serialize web3 txWithout = Inr bytesWithout \<and>
      serialize web3 txWith = Inr bytesWith \<and>
      t = [Ev_getAddressLookupTable a,
           Log (L_fetched_table (key lookupTable)),
           Ev_getLatestBlockhash Finalized,
           Log (L_blockhash (lastValidBlockHeight bh)),
           Ev_compileToV0Message message (Some [lookupTable]),
           Ev_sign (newVersionedTransaction web3 mWith) [payer],
           Ev_compileToV0Message message None,
           Ev_sign (newVersionedTransaction web3 mWithout) [payer],
           Log L_compiled_txs,
           Ev_serialize txWithout,
           Log (L_size_without (length bytesWithout)),
           Ev_serialize txWith,
           Log (L_size_with (length bytesWith))])"
  using assms
  by (auto simp add: compareTxSize_def run_simps split: prod.splits sum.splits)

theorem compareTxSize_builds_both_witness:
  "\<exists>t. compareTxSize fx_sdk fx_conn fx_payer fx_table_address 7 = (Inr (), t, 9) \<and>
     getAddressLookupTable fx_conn fx_table_address 7 = (Inr (Some fx_table), 8) \<and>
     Log (L_size_without 7) \<in> set t \<and> Log (L_size_with 5) \<in> set t \<and>
     (\<exists>bh mWith mWithout txWith txWithout bytesWithout bytesWith.
       getLatestBlockhash fx_conn Finalized 8 = (Inr bh, 9) \<and>
       (let message = \<lparr>payerKey = publicKey fx_payer, recentBlockhash = blockhash bh,
                       instructions = map (\<lambda>address. transfer fx_sdk (publicKey fx_payer) address 1000000)
                                        (addresses (state fx_table))\<rparr> in
        compileToV0Message fx_sdk message (Some [fx_table]) = Inr mWith \<and>
        compileToV0Message fx_sdk message None = Inr mWithout \<and>
        sign fx_sdk (newVersionedTransaction fx_sdk mWith) [fx_payer] = Inr txWith \<and>
        sign fx_sdk (newVersionedTransaction fx_sdk mWithout) [fx_payer] = Inr txWithout \<and>
        serialize fx_sdk txWithout = Inr bytesWithout \<and>
        serialize fx_sdk txWith = Inr bytesWith \<and>
        t = [Ev_getAddressLookupTable fx_table_address,
             Log (L_fetched_table (key fx_table)),
             Ev_getLatestBlockhash Finalized,
             Log (L_blockhash (lastValidBlockHeight bh)),
             Ev_compileToV0Message message (Some [fx_table]),
             Ev_sign (newVersionedTransaction fx_sdk mWith) [fx_payer],
             Ev_compileToV0Message message None,
             Ev_sign (newVersionedTransaction fx_sdk mWithout) [fx_payer],
             Log L_compiled_txs,
             Ev_serialize txWithout,
             Log (L_size_without (length bytesWithout)),
             Ev_serialize txWith,
             Log (L_size_with (length bytesWith))]))"
proof -
  have h2: "getAddressLookupTable fx_conn fx_table_address 7 = (Inr (Some fx_table), 8)"
    by (simp add: fx_conn_def)
  have "\<exists>t. compareTxSize fx_sdk fx_conn fx_payer fx_table_address 7 = (Inr (), t, 9) \<and>
     Log (L_size_without 7) \<in> set t \<and> Log (L_size_with 5) \<in> set t"
    by (simp add: compareTxSize_def run_simps fx_sdk_def fx_conn_def)
  then obtain t where h1: "compareTxSize fx_sdk fx_conn fx_payer fx_table_address 7 = (Inr (), t, 9)"
    and sizes: "Log (L_size_without 7) \<in> set t" "Log (L_size_with 5) \<in> set t"
    by blast
  from compareTxSize_builds_both [OF h1 h2] h1 h2 sizes show ?thesis
    by blast
qed

text \<open>
  Claim C10. When the fetch resolves to \<^verbatim>\<open>null\<close>, \<^verbatim>\<open>compareTxSize\<close> returns normally after
  that single request: nothing is compiled, signed or serialized, nothing is printed, and
  the cluster is left as the fetch left it.
\<close>

theorem compareTxSize_absent:
  assumes "getAddressLookupTable conn a w = (Inr None, w1)"
  shows "compareTxSize web3 conn payer a w = (Inr (), [Ev_getAddressLookupTable a], w1)"
  using assms by (simp add: compareTxSize_def request_then ret_def)

theorem compareTxSize_absent_witness:
  "getAddressLookupTable fx_conn fx_table_address 0 = (Inr None, 1) \<and>
   compareTxSize fx_sdk fx_conn fx_payer fx_table_address 0 =
     (Inr (), [Ev_getAddressLookupTable fx_table_address], 1)"
proof -
  have h: "getAddressLookupTable fx_conn fx_table_address 0 = (Inr None, 1)"
    by (simp add: fx_conn_def)
  from h compareTxSize_absent [OF h, of fx_sdk fx_payer] show ?thesis by simp
qed

subsection \<open>Submitting a transaction\<close>

text \<open>
  Claim C4. Every run of \<^verbatim>\<open>createAndSendV0Tx\<close> makes its calls in the order: fetch the
  blockhash, compile, sign, send, confirm, and stops at the first one that fails. A run
  that returns has compiled the message from the payer's key, the blockhash fetched at
  the start of this very call and the given instructions, with no table; has had the
  payer sign it; has sent the signed transaction; and has waited for the confirmation of
  the returned signature with the blockhash and the last valid block height of that
  same fetch.
\<close>

theorem createAndSendV0Tx_order:
  assumes "createAndSendV0Tx web3 conn payer ixs w = (r, t, w3)"
  shows "prefix (steps t) submit_steps \<and>
    (r = Inr () \<longrightarrow>
      (\<exists>bh w1 msg tx txid w2 res.
         getLatestBlockhash conn Finalized w = (Inr bh, w1) \<and>
         compileToV0Message web3
           \<lparr>payerKey = publicKey payer, recentBlockhash = blockhash bh, instructions = ixs\<rparr>
           None = Inr msg \<and>
         sign web3 (newVersionedTransaction web3 msg) [payer] = Inr tx \<and>
         sendTransaction conn tx w1 = (Inr txid, w2) \<and>
         confirmTransaction conn
           \<lparr>blockhash = blockhash bh, lastValidBlockHeight = lastValidBlockHeight bh,
            signature = txid\<rparr> w2 = (Inr res, w3) \<and>
         t = [Ev_getLatestBlockhash Finalized,
              Log (L_blockhash (lastValidBlockHeight bh)),
              Ev_compileToV0Message
                \<lparr>payerKey = publicKey payer, recentBlockhash = blockhash bh,
                 instructions = ixs\<rparr> None,
              Log L_compiled,
              Ev_sign (newVersionedTransaction web3 msg) [payer],
              Log L_signed,
              Ev_sendTransaction tx,
              Ev_confirmTransaction
                \<lparr>blockhash = blockhash bh, lastValidBlockHeight = lastValidBlockHeight bh,
                 signature = txid\<rparr>,
              Log (L_confirmed txid)]))"
proof
  from createAndSendV0Tx_steps assms show "prefix (steps t) submit_steps"
    by (rule runs_exactly_prefix)
next
  from assms show "r = Inr () \<longrightarrow> (\<exists>bh w1 msg tx txid w2 res.
         getLatestBlockhash conn Finalized w = (Inr bh, w1) \<and>
         compileToV0Message web3
           \<lparr>payerKey = publicKey payer, recentBlockhash = blockhash bh, instructions = ixs\<rparr>
           None = Inr msg \<and>
         sign web3 (newVersionedTransaction web3 msg) [payer] = Inr tx \<and>
         sendTransaction conn tx w1 = (Inr txid, w2) \<and>
         confirmTransaction conn
           \<lparr>blockhash = blockhash bh, lastValidBlockHeight = lastValidBlockHeight bh,
            signature = txid\<rparr> w2 = (Inr res, w3) \<and>
         t = [Ev_getLatestBlockhash Finalized,
              Log (L_blockhash (lastValidBlockHeight bh)),
              Ev_compileToV0Message
                \<lparr>payerKey = publicKey payer, recentBlockhash = blockhash bh,
                 instructions = ixs\<rparr> None,
              Log L_compiled,
              Ev_sign (newVersionedTransaction web3 msg) [payer],
              Log L_signed,
              Ev_sendTransaction tx,
              Ev_confirmTransaction
                \<lparr>blockhash = blockhash bh, lastValidBlockHeight = lastValidBlockHeight bh,
                 signature = txid\<rparr>,
              Log (L_confirmed txid)])"
    by (auto simp add: createAndSendV0Tx_def run_simps split: prod.splits sum.splits)
qed

theorem createAndSendV0Tx_order_witness:
  "\<exists>t. createAndSendV0Tx fx_sdk fx_conn fx_payer [Fx_transfer (PublicKey ''a'') (PublicKey ''b'') 5] 0
          = (Inr (), t, 3) \<and>
     prefix (steps t) submit_steps \<and>
     (\<exists>bh w1 msg tx txid w2 res.
         getLatestBlockhash fx_conn Finalized 0 = (Inr bh, w1) \<and>
         compileToV0Message fx_sdk
           \<lparr>payerKey = publicKey fx_payer, recentBlockhash = blockhash bh,
            instructions = [Fx_transfer (PublicKey ''a'') (PublicKey ''b'') 5]\<rparr>
           None = Inr msg \<and>
         sign fx_sdk (newVersionedTransaction fx_sdk msg) [fx_payer] = Inr tx \<and>
         sendTransaction fx_conn tx w1 = (Inr txid, w2) \<and>
         confirmTransaction fx_conn
           \<lparr>blockhash = blockhash bh, lastValidBlockHeight = lastValidBlockHeight bh,
            signature = txid\<rparr> w2 = (Inr res, 3) \<and>
         t = [Ev_getLatestBlockhash Finalized,
              Log (L_blockhash (lastValidBlockHeight bh)),
              Ev_compileToV0Message
                \<lparr>payerKey = publicKey fx_payer, recentBlockhash = blockhash bh,
                 instructions = [Fx_transfer (PublicKey ''a'') (PublicKey ''b'') 5]\<rparr> None,
              Log L_compiled,
              Ev_sign (newVersionedTransaction fx_sdk msg) [fx_payer],
              Log L_signed,
              Ev_sendTransaction tx,
              Ev_confirmTransaction
                \<lparr>blockhash = blockhash bh, lastValidBlockHeight = lastValidBlockHeight bh,
                 signature = txid\<rparr>,
              Log (L_confirmed txid)])"
proof -
  have "\<exists>t. createAndSendV0Tx fx_sdk fx_conn fx_payer
      [Fx_transfer (PublicKey ''a'') (PublicKey ''b'') 5] 0 = (Inr (), t, 3)"
    by (simp add: createAndSendV0Tx_def run_simps fx_sdk_def fx_conn_def)
  then obtain t where h: "createAndSendV0Tx fx_sdk fx_conn fx_payer
      [Fx_transfer (PublicKey ''a'') (PublicKey ''b'') 5] 0 = (Inr (), t, 3)"
    by blast
  from createAndSendV0Tx_order [OF h] h show ?thesis
    by blast
qed

text \<open>
  Claim C5 says that the confirmation call is commented out and that the success line
  can be printed with no confirmation. In \<^verbatim>\<open>index.js\<close> the call is there (lines 39 to
  43) and awaited: on a cluster that accepts the transaction and rejects the
  confirmation, the run makes the confirmation request with both blockhash fields,
  throws, and prints no success line.
\<close>

theorem confirmation_rejected_no_success_message:
  "createAndSendV0Tx fx_sdk fx_conn_unconfirmed fx_payer [Fx_create (PublicKey ''Payer'') (PublicKey ''Payer'') 2] 0 =
     (Inl (Rejected ''expired''),
      [Ev_getLatestBlockhash Finalized,
       Log (L_blockhash 900),
       Ev_compileToV0Message
         \<lparr>payerKey = PublicKey ''Payer'', recentBlockhash = ''hash'',
          instructions = [Fx_create (PublicKey ''Payer'') (PublicKey ''Payer'') 2]\<rparr> None,
       Log L_compiled,
       Ev_sign (Fx_tx (Fx_msg \<lparr>payerKey = PublicKey ''Payer'', recentBlockhash = ''hash'',
          instructions = [Fx_create (PublicKey ''Payer'') (PublicKey ''Payer'') 2]\<rparr> None) []) [fx_payer],
       Log L_signed,
       Ev_sendTransaction (Fx_tx (Fx_msg \<lparr>payerKey = PublicKey ''Payer'', recentBlockhash = ''hash'',
          instructions = [Fx_create (PublicKey ''Payer'') (PublicKey ''Payer'') 2]\<rparr> None) [fx_payer]),
       Ev_confirmTransaction \<lparr>blockhash = ''hash'', lastValidBlockHeight = 900, signature = ''txid''\<rparr>],
      3)"
  by (simp add: createAndSendV0Tx_def run_simps fx_sdk_def fx_conn_def fx_conn_unconfirmed_def
      fx_payer_def)

text \<open>
  Claim C5, amended. In every run of \<^verbatim>\<open>createAndSendV0Tx\<close>: the success line for a
  signature is printed only as the last event, right after a \<^verbatim>\<open>confirmTransaction\<close>
  request for that signature that resolved; and once the signed transaction has been
  sent, what follows is fixed by the answers alone. If \<^verbatim>\<open>sendTransaction\<close> rejects,
  the run throws there. If it resolves to a signature, the next event is the
  \<^verbatim>\<open>confirmTransaction\<close> request with that signature and with the blockhash and the
  last valid block height of the blockhash fetched at the start of this call; if that
  request rejects, the run throws and no success line is printed; if it resolves, to
  whatever value, the success line is printed and the function returns.
\<close>

theorem success_message_after_confirmation:
  assumes "createAndSendV0Tx web3 conn payer ixs w = (r, t, w3)"
  shows "(\<forall>txid. Log (L_confirmed txid) \<in> set t \<longrightarrow>
      (\<exists>bh w1 tx w2 res t0.
         getLatestBlockhash conn Finalized w = (Inr bh, w1) \<and>
         sendTransaction conn tx w1 = (Inr txid, w2) \<and>
         confirmTransaction conn
           \<lparr>blockhash = blockhash bh, lastValidBlockHeight = lastValidBlockHeight bh,
            signature = txid\<rparr> w2 = (Inr res, w3) \<and>
         t = t0 @ [Ev_sendTransaction tx,
                   Ev_confirmTransaction
                     \<lparr>blockhash = blockhash bh, lastValidBlockHeight = lastValidBlockHeight bh,
                      signature = txid\<rparr>,
                   Log (L_confirmed txid)])) \<and>
    (\<forall>tx. Ev_sendTransaction tx \<in> set t \<longrightarrow>
      (\<exists>bh w1 msg.
         getLatestBlockhash conn Finalized w = (Inr bh, w1) \<and>
         (let message = \<lparr>payerKey = publicKey payer, recentBlockhash = blockhash bh,
                         instructions = ixs\<rparr>;
              t0 = [Ev_getLatestBlockhash Finalized,
                    Log (L_blockhash (lastValidBlockHeight bh)),
                    Ev_compileToV0Message message None,
                    Log L_compiled,
                    Ev_sign (newVersionedTransaction web3 msg) [payer],
                    Log L_signed,
                    Ev_sendTransaction tx]
          in compileToV0Message web3 message None = Inr msg \<and>
             sign web3 (newVersionedTransaction web3 msg) [payer] = Inr tx \<and>
             (case sendTransaction conn tx w1 of
                (Inl e, w2) \<Rightarrow> (r, t, w3) = (Inl e, t0, w2)
              | (Inr txid, w2) \<Rightarrow>
                  (let args = \<lparr>blockhash = blockhash bh,
                               lastValidBlockHeight = lastValidBlockHeight bh,
                               signature = txid\<rparr>
                   in case confirmTransaction conn args w2 of
                        (Inl e, w4) \<Rightarrow>
                          (r, t, w3) = (Inl e, t0 @ [Ev_confirmTransaction args], w4)
                      | (Inr res, w4) \<Rightarrow>
                          (r, t, w3) =
                            (Inr (), t0 @ [Ev_confirmTransaction args, Log (L_confirmed txid)],
                             w4))))))"
  using assms
  by (auto simp add: createAndSendV0Tx_def run_simps split: prod.splits sum.splits)

theorem success_message_after_confirmation_witness:
  "\<exists>t. createAndSendV0Tx fx_sdk fx_conn_failed fx_payer
       [Fx_transfer (PublicKey ''a'') (PublicKey ''b'') 5] 0 = (Inr (), t, 3) \<and>
     confirmTransaction fx_conn_failed
       \<lparr>blockhash = ''hash'', lastValidBlockHeight = 900, signature = ''txid''\<rparr> 2
       = (Inr (SigResult (Some ''failed'')), 3) \<and>
     Log (L_confirmed ''txid'') \<in> set t \<and>
     Ev_sendTransaction
       (Fx_tx (Fx_msg \<lparr>payerKey = publicKey fx_payer, recentBlockhash = ''hash'',
                instructions = [Fx_transfer (PublicKey ''a'') (PublicKey ''b'') 5]\<rparr> None) [fx_payer]) \<in> set t \<and>
     (\<exists>bh w1 tx w2 res t0.
         getLatestBlockhash fx_conn_failed Finalized 0 = (Inr bh, w1) \<and>
         sendTransaction fx_conn_failed tx w1 = (Inr ''txid'', w2) \<and>
         confirmTransaction fx_conn_failed
           \<lparr>blockhash = blockhash bh, lastValidBlockHeight = lastValidBlockHeight bh,
            signature = ''txid''\<rparr> w2 = (Inr res, 3) \<and>
         t = t0 @ [Ev_sendTransaction tx,
                   Ev_confirmTransaction
                     \<lparr>blockhash = blockhash bh, lastValidBlockHeight = lastValidBlockHeight bh,
                      signature = ''txid''\<rparr>,
                   Log (L_confirmed ''txid'')]) \<and>
     (\<exists>bh w1 msg.
         getLatestBlockhash fx_conn_failed Finalized 0 = (Inr bh, w1) \<and>
         (let message = \<lparr>payerKey = publicKey fx_payer, recentBlockhash = blockhash bh,
                         instructions = [Fx_transfer (PublicKey ''a'') (PublicKey ''b'') 5]\<rparr>;
              t0 = [Ev_getLatestBlockhash Finalized,
                    Log (L_blockhash (lastValidBlockHeight bh)),
                    Ev_compileToV0Message message None,
                    Log L_compiled,
                    Ev_sign (newVersionedTransaction fx_sdk msg) [fx_payer],
                    Log L_signed,
                    Ev_sendTransaction (Fx_tx (Fx_msg \<lparr>payerKey = publicKey fx_payer, recentBlockhash = ''hash'',
                instructions = [Fx_transfer (PublicKey ''a'') (PublicKey ''b'') 5]\<rparr> None) [fx_payer])]
          in compileToV0Message fx_sdk message None = Inr msg \<and>
             sign fx_sdk (newVersionedTransaction fx_sdk msg) [fx_payer] = Inr (Fx_tx (Fx_msg \<lparr>payerKey = publicKey fx_payer, recentBlockhash = ''hash'',
                instructions = [Fx_transfer (PublicKey ''a'') (PublicKey ''b'') 5]\<rparr> None) [fx_payer]) \<and>
             (case sendTransaction fx_conn_failed (Fx_tx (Fx_msg \<lparr>payerKey = publicKey fx_payer, recentBlockhash = ''hash'',
                instructions = [Fx_transfer (PublicKey ''a'') (PublicKey ''b'') 5]\<rparr> None) [fx_payer]) w1 of
                (Inl e, w2) \<Rightarrow> (Inr () :: exn + unit, t, 3) = (Inl e, t0, w2)
              | (Inr txid, w2) \<Rightarrow>
                  (let args = \<lparr>blockhash = blockhash bh,
                               lastValidBlockHeight = lastValidBlockHeight bh,
                               signature = txid\<rparr>
                   in case confirmTransaction fx_conn_failed args w2 of
                        (Inl e, w4) \<Rightarrow>
                          (Inr () :: exn + unit, t, 3) = (Inl e, t0 @ [Ev_confirmTransaction args], w4)
                      | (Inr res, w4) \<Rightarrow>
                          (Inr () :: exn + unit, t, 3) =
                            (Inr (), t0 @ [Ev_confirmTransaction args, Log (L_confirmed txid)],
                             w4)))))"
proof -
  have "\<exists>t. createAndSendV0Tx fx_sdk fx_conn_failed fx_payer
       [Fx_transfer (PublicKey ''a'') (PublicKey ''b'') 5] 0 = (Inr (), t, 3) \<and>
     Log (L_confirmed ''txid'') \<in> set t \<and>
     Ev_sendTransaction
       (Fx_tx (Fx_msg \<lparr>payerKey = publicKey fx_payer, recentBlockhash = ''hash'',
                instructions = [Fx_transfer (PublicKey ''a'') (PublicKey ''b'') 5]\<rparr> None) [fx_payer]) \<in> set t"
    by (simp add: createAndSendV0Tx_def run_simps fx_sdk_def fx_conn_def fx_conn_failed_def
        fx_payer_def)
  then obtain t where
    run: "createAndSendV0Tx fx_sdk fx_conn_failed fx_payer
       [Fx_transfer (PublicKey ''a'') (PublicKey ''b'') 5] 0 = (Inr (), t, 3)" and
    line: "Log (L_confirmed ''txid'') \<in> set t" and
    sent: "Ev_sendTransaction
       (Fx_tx (Fx_msg \<lparr>payerKey = publicKey fx_payer, recentBlockhash = ''hash'',
                instructions = [Fx_transfer (PublicKey ''a'') (PublicKey ''b'') 5]\<rparr> None) [fx_payer]) \<in> set t"
    by blast
  have resolved: "confirmTransaction fx_conn_failed
       \<lparr>blockhash = ''hash'', lastValidBlockHeight = 900, signature = ''txid''\<rparr> 2
       = (Inr (SigResult (Some ''failed'')), 3)"
    by (simp add: fx_conn_failed_def fx_conn_def)
  note both = success_message_after_confirmation [OF run]
  have after: "(\<exists>bh w1 tx w2 res t0.
         getLatestBlockhash fx_conn_failed Finalized 0 = (Inr bh, w1) \<and>
         sendTransaction fx_conn_failed tx w1 = (Inr ''txid'', w2) \<and>
         confirmTransaction fx_conn_failed
           \<lparr>blockhash = blockhash bh, lastValidBlockHeight = lastValidBlockHeight bh,
            signature = ''txid''\<rparr> w2 = (Inr res, 3) \<and>
         t = t0 @ [Ev_sendTransaction tx,
                   Ev_confirmTransaction
                     \<lparr>blockhash = blockhash bh, lastValidBlockHeight = lastValidBlockHeight bh,
                      signature = ''txid''\<rparr>,
                   Log (L_confirmed ''txid'')])"
    by (rule both [THEN conjunct1, THEN spec, THEN mp, OF line])
  have follows: "(\<exists>bh w1 msg.
         getLatestBlockhash fx_conn_failed Finalized 0 = (Inr bh, w1) \<and>
         (let message = \<lparr>payerKey = publicKey fx_payer, recentBlockhash = blockhash bh,
                         instructions = [Fx_transfer (PublicKey ''a'') (PublicKey ''b'') 5]\<rparr>;
              t0 = [Ev_getLatestBlockhash Finalized,
                    Log (L_blockhash (lastValidBlockHeight bh)),
                    Ev_compileToV0Message message None,
                    Log L_compiled,
                    Ev_sign (newVersionedTransaction fx_sdk msg) [fx_payer],
                    Log L_signed,
                    Ev_sendTransaction (Fx_tx (Fx_msg \<lparr>payerKey = publicKey fx_payer, recentBlockhash = ''hash'',
                instructions = [Fx_transfer (PublicKey ''a'') (PublicKey ''b'') 5]\<rparr> None) [fx_payer])]
          in compileToV0Message fx_sdk message None = Inr msg \<and>
             sign fx_sdk (newVersionedTransaction fx_sdk msg) [fx_payer] = Inr (Fx_tx (Fx_msg \<lparr>payerKey = publicKey fx_payer, recentBlockhash = ''hash'',
                instructions = [Fx_transfer (PublicKey ''a'') (PublicKey ''b'') 5]\<rparr> None) [fx_payer]) \<and>
             (case sendTransaction fx_conn_failed (Fx_tx (Fx_msg \<lparr>payerKey = publicKey fx_payer, recentBlockhash = ''hash'',
                instructions = [Fx_transfer (PublicKey ''a'') (PublicKey ''b'') 5]\<rparr> None) [fx_payer]) w1 of
                (Inl e, w2) \<Rightarrow> (Inr () :: exn + unit, t, 3) = (Inl e, t0, w2)
              | (Inr txid, w2) \<Rightarrow>
                  (let args = \<lparr>blockhash = blockhash bh,
                               lastValidBlockHeight = lastValidBlockHeight bh,
                               signature = txid\<rparr>
                   in case confirmTransaction fx_conn_failed args w2 of
                        (Inl e, w4) \<Rightarrow>
                          (Inr () :: exn + unit, t, 3) = (Inl e, t0 @ [Ev_confirmTransaction args], w4)
                      | (Inr res, w4) \<Rightarrow>
                          (Inr () :: exn + unit, t, 3) =
                            (Inr (), t0 @ [Ev_confirmTransaction args, Log (L_confirmed txid)],
                             w4)))))"
    by (rule both [THEN conjunct2, THEN spec, THEN mp, OF sent])
  show ?thesis
    by (rule exI [of _ t]) (intro conjI run resolved line sent after follows)
qed

subsection \<open>Fetching a table\<close>

text \<open>
  Claim C6 asks \<^verbatim>\<open>fetchALTs\<close> to return an explicit absent result for a table that does
  not exist. It does not: when the cluster answers \<^verbatim>\<open>null\<close>, \<^verbatim>\<open>fetchALTs\<close> prints the
  \<^verbatim>\<open>null\<close> and then throws a \<^verbatim>\<open>TypeError\<close> on reading \<^verbatim>\<open>key\<close>. On the scripted
  cluster, before the table is visible:
\<close>

theorem fetchALTs_throws_on_absent_table:
  "(fetchALTs fx_conn fx_table_address 0
      :: (exn + lookup_table_account option) \<times> (fx_ix, fx_tx) event list \<times> nat) =
     (Inl (TypeError ''key''),
      [Ev_getAddressLookupTable fx_table_address, Log (L_account None)], 1)"
  by (rule fetchALTs_absent) (simp add: fx_conn_def)

subsection \<open>The whole script\<close>

text \<open>
  Claim C9. Every run of \<^verbatim>\<open>main\<close> makes a prefix of one fixed sequence of calls: those
  of the creation, the timer of 60000 milliseconds, those of the extension, those of the
  comparison; so no call is repeated and none is made out of order. A run that returns
  has done exactly this, each request starting in the state the one before left: asked
  for the slot; submitted and had confirmed the one instruction that creates the table
  for the payer and that slot; waited 60000 milliseconds; submitted and had confirmed
  the one instruction that extends the created table with the four addresses of lines
  175 to 178; fetched the table at the created address; and then either stopped, when
  there was none, or compiled, signed and serialized the two transactions and printed
  their sizes.
\<close>

theorem main_sequence:
  assumes run: "main web3 conn elapse payer w = (r, t, wz)"
  shows "prefix (steps t) main_steps \<and>
    (r = Inr () \<longrightarrow>
      (\<exists>slot w1 bh1 w2 msg1 tx1 txid1 w3 res1 w4 bh2 w5 msg2 tx2 txid2 w6 res2 w7
          fetched w8 t3.
        let pk = publicKey payer;
            created = createLookupTable web3 pk pk slot;
            a = snd created;
            submitted = (\<lambda>bh message msg tx args txid.
              [Ev_getLatestBlockhash Finalized,
               Log (L_blockhash (lastValidBlockHeight bh)),
               Ev_compileToV0Message message None,
               Log L_compiled,
               Ev_sign (newVersionedTransaction web3 msg) [payer],
               Log L_signed,
               Ev_sendTransaction tx,
               Ev_confirmTransaction args,
               Log (L_confirmed txid)]);
            message1 = \<lparr>payerKey = pk, recentBlockhash = blockhash bh1,
                         instructions = [fst created]\<rparr>;
            args1 = \<lparr>blockhash = blockhash bh1,
                      lastValidBlockHeight = lastValidBlockHeight bh1,
                      signature = txid1\<rparr>;
            message2 = \<lparr>payerKey = pk, recentBlockhash = blockhash bh2,
                         instructions =
                           [extendLookupTable web3 pk pk a
                              [PublicKey ''8Z17Y623ZjNV8xaAdxgn5ZkqkVTEo8Yc6uaapvcrFB62'',
                               PublicKey ''846HwwmSGguDbipzs2xDYCsfyhi4j2LLiuQri11woums'',
                               PublicKey ''FueGNmz4M2wphGnDL5RuH2fCo6EQxxtheVn6syGE4Fh1'',
                               PublicKey ''8io2LqthLyQfFncj6QAaQ2q5d7z9WgRcVKrAz4DGNiee'']]\<rparr>;
            args2 = \<lparr>blockhash = blockhash bh2,
                      lastValidBlockHeight = lastValidBlockHeight bh2,
                      signature = txid2\<rparr>
        in getSlot conn w = (Inr slot, w1) \<and>
           getLatestBlockhash conn Finalized w1 = (Inr bh1, w2) \<and>
           compileToV0Message web3 message1 None = Inr msg1 \<and>
           sign web3 (newVersionedTransaction web3 msg1) [payer] = Inr tx1 \<and>
           sendTransaction conn tx1 w2 = (Inr txid1, w3) \<and>
           confirmTransaction conn args1 w3 = (Inr res1, w4) \<and>
           getLatestBlockhash conn Finalized (elapse 60000 w4) = (Inr bh2, w5) \<and>
           compileToV0Message web3 message2 None = Inr msg2 \<and>
           sign web3 (newVersionedTransaction web3 msg2) [payer] = Inr tx2 \<and>
           sendTransaction conn tx2 w5 = (Inr txid2, w6) \<and>
           confirmTransaction conn args2 w6 = (Inr res2, w7) \<and>
           getAddressLookupTable conn a w7 = (Inr fetched, w8) \<and>
           (case fetched of
              None \<Rightarrow> t3 = [Ev_getAddressLookupTable a] \<and> wz = w8
            | Some lookupTable \<Rightarrow>
                (\<exists>bh3 mWith mWithout txWith txWithout bytesWithout bytesWith.
                   let message3 =
                         \<lparr>payerKey = pk, recentBlockhash = blockhash bh3,
                          instructions =
                            map (\<lambda>address. transfer web3 pk address 1000000)
                              (addresses (state lookupTable))\<rparr>
                   in getLatestBlockhash conn Finalized w8 = (Inr bh3, wz) \<and>
                      compileToV0Message web3 message3 (Some [lookupTable]) = Inr mWith \<and>
                      compileToV0Message web3 message3 None = Inr mWithout \<and>
                      sign web3 (newVersionedTransaction web3 mWith) [payer] = Inr txWith \<and>
                      sign web3 (newVersionedTransaction web3 mWithout) [payer]
                        = Inr txWithout \<and>
                      serialize web3 txWithout = Inr bytesWithout \<and>
                      serialize web3 txWith = Inr bytesWith \<and>
                      t3 = [Ev_getAddressLookupTable a,
                            Log (L_fetched_table (key lookupTable)),
                            Ev_getLatestBlockhash Finalized,
                            Log (L_blockhash (lastValidBlockHeight bh3)),
                            Ev_compileToV0Message message3 (Some [lookupTable]),
                            Ev_sign (newVersionedTransaction web3 mWith) [payer],
                            Ev_compileToV0Message message3 None,
                            Ev_sign (newVersionedTransaction web3 mWithout) [payer],
                            Log L_compiled_txs,
                            Ev_serialize txWithout,
                            Log (L_size_without (length bytesWithout)),
                            Ev_serialize txWith,
                            Log (L_size_with (length bytesWith))])) \<and>
           t = [Log L_step1, Ev_getSlot, Log (L_slot slot), Log (L_table_address a)]
                 @ submitted bh1 message1 msg1 tx1 args1 txid1
                 @ [Log L_created, Log L_waiting, Ev_setTimeout 60000, Log L_step2]
                 @ submitted bh2 message2 msg2 tx2 args2 txid2
                 @ [Log (L_entries a), Log L_step3]
                 @ t3))"
proof (intro conjI impI)
  from main_steps_within run show "prefix (steps t) main_steps"
    by (rule runs_within_prefix)
next
  assume "r = Inr ()"
  with run have "main web3 conn elapse payer w = (Inr (), t, wz)"
    by simp
  from main_returned [OF this] obtain a t1 w4 t2 w7 t3 where
    create: "createALTs web3 conn payer w = (Inr a, t1, w4)" and
    extend: "addAddress web3 conn payer a main_addresses (elapse 60000 w4) = (Inr (), t2, w7)" and
    compare: "compareTxSize web3 conn payer a w7 = (Inr (), t3, wz)" and
    t: "t = Log L_step1 # t1 @ [Log L_waiting, Ev_setTimeout 60000, Log L_step2] @ t2
           @ [Log L_step3] @ t3"
    by blast
  from createALTs_returned_slot [OF create] obtain slot w1 s1 where
    slot: "getSlot conn w = (Inr slot, w1)" and
    a: "a = snd (createLookupTable web3 (publicKey payer) (publicKey payer) slot)" and
    submit1: "createAndSendV0Tx web3 conn payer
       [fst (createLookupTable web3 (publicKey payer) (publicKey payer) slot)] w1
       = (Inr (), s1, w4)" and
    t1: "t1 = [Ev_getSlot, Log (L_slot slot), Log (L_table_address a)] @ s1 @ [Log L_created]"
    by blast
  from addAddress_returned [OF extend] obtain s2 where
    submit2: "createAndSendV0Tx web3 conn payer
       [extendLookupTable web3 (publicKey payer) (publicKey payer) a main_addresses]
       (elapse 60000 w4) = (Inr (), s2, w7)" and
    t2: "t2 = s2 @ [Log (L_entries a)]"
    by blast
  note first = createAndSendV0Tx_returned [OF submit1]
  note second = createAndSendV0Tx_returned [OF submit2]
  note third = compareTxSize_returned [OF compare]
  from first second third slot t t1 t2
  show "(\<exists>slot w1 bh1 w2 msg1 tx1 txid1 w3 res1 w4 bh2 w5 msg2 tx2 txid2 w6 res2 w7
          fetched w8 t3.
        let pk = publicKey payer;
            created = createLookupTable web3 pk pk slot;
            a = snd created;
            submitted = (\<lambda>bh message msg tx args txid.
              [Ev_getLatestBlockhash Finalized,
               Log (L_blockhash (lastValidBlockHeight bh)),
               Ev_compileToV0Message message None,
               Log L_compiled,
               Ev_sign (newVersionedTransaction web3 msg) [payer],
               Log L_signed,
               Ev_sendTransaction tx,
               Ev_confirmTransaction args,
               Log (L_confirmed txid)]);
            message1 = \<lparr>payerKey = pk, recentBlockhash = blockhash bh1,
                         instructions = [fst created]\<rparr>;
            args1 = \<lparr>blockhash = blockhash bh1,
                      lastValidBlockHeight = lastValidBlockHeight bh1,
                      signature = txid1\<rparr>;
            message2 = \<lparr>payerKey = pk, recentBlockhash = blockhash bh2,
                         instructions =
                           [extendLookupTable web3 pk pk a
                              [PublicKey ''8Z17Y623ZjNV8xaAdxgn5ZkqkVTEo8Yc6uaapvcrFB62'',
                               PublicKey ''846HwwmSGguDbipzs2xDYCsfyhi4j2LLiuQri11woums'',
                               PublicKey ''FueGNmz4M2wphGnDL5RuH2fCo6EQxxtheVn6syGE4Fh1'',
                               PublicKey ''8io2LqthLyQfFncj6QAaQ2q5d7z9WgRcVKrAz4DGNiee'']]\<rparr>;
            args2 = \<lparr>blockhash = blockhash bh2,
                      lastValidBlockHeight = lastValidBlockHeight bh2,
                      signature = txid2\<rparr>
        in getSlot conn w = (Inr slot, w1) \<and>
           getLatestBlockhash conn Finalized w1 = (Inr bh1, w2) \<and>
           compileToV0Message web3 message1 None = Inr msg1 \<and>
           sign web3 (newVersionedTransaction web3 msg1) [payer] = Inr tx1 \<and>
           sendTransaction conn tx1 w2 = (Inr txid1, w3) \<and>
           confirmTransaction conn args1 w3 = (Inr res1, w4) \<and>
           getLatestBlockhash conn Finalized (elapse 60000 w4) = (Inr bh2, w5) \<and>
           compileToV0Message web3 message2 None = Inr msg2 \<and>
           sign web3 (newVersionedTransaction web3 msg2) [payer] = Inr tx2 \<and>
           sendTransaction conn tx2 w5 = (Inr txid2, w6) \<and>
           confirmTransaction conn args2 w6 = (Inr res2, w7) \<and>
           getAddressLookupTable conn a w7 = (Inr fetched, w8) \<and>
           (case fetched of
              None \<Rightarrow> t3 = [Ev_getAddressLookupTable a] \<and> wz = w8
            | Some lookupTable \<Rightarrow>
                (\<exists>bh3 mWith mWithout txWith txWithout bytesWithout bytesWith.
                   let message3 =
                         \<lparr>payerKey = pk, recentBlockhash = blockhash bh3,
                          instructions =
                            map (\<lambda>address. transfer web3 pk address 1000000)
                              (addresses (state lookupTable))\<rparr>
                   in getLatestBlockhash conn Finalized w8 = (Inr bh3, wz) \<and>
                      compileToV0Message web3 message3 (Some [lookupTable]) = Inr mWith \<and>
                      compileToV0Message web3 message3 None = Inr mWithout \<and>
                      sign web3 (newVersionedTransaction web3 mWith) [payer] = Inr txWith \<and>
                      sign web3 (newVersionedTransaction web3 mWithout) [payer]
                        = Inr txWithout \<and>
                      serialize web3 txWithout = Inr bytesWithout \<and>
                      serialize web3 txWith = Inr bytesWith \<and>
                      t3 = [Ev_getAddressLookupTable a,
                            Log (L_fetched_table (key lookupTable)),
                            Ev_getLatestBlockhash Finalized,
                            Log (L_blockhash (lastValidBlockHeight bh3)),
                            Ev_compileToV0Message message3 (Some [lookupTable]),
                            Ev_sign (newVersionedTransaction web3 mWith) [payer],
                            Ev_compileToV0Message message3 None,
                            Ev_sign (newVersionedTransaction web3 mWithout) [payer],
                            Log L_compiled_txs,
                            Ev_serialize txWithout,
                            Log (L_size_without (length bytesWithout)),
                            Ev_serialize txWith,
                            Log (L_size_with (length bytesWith))])) \<and>
           t = [Log L_step1, Ev_getSlot, Log (L_slot slot), Log (L_table_address a)]
                 @ submitted bh1 message1 msg1 tx1 args1 txid1
                 @ [Log L_created, Log L_waiting, Ev_setTimeout 60000, Log L_step2]
                 @ submitted bh2 message2 msg2 tx2 args2 txid2
                 @ [Log (L_entries a), Log L_step3]
                 @ t3)"
    unfolding Let_def a main_addresses_def
    by (elim exE conjE) (intro exI conjI, assumption+, simp)
qed

theorem main_sequence_witness:
  "\<exists>t. main fx_sdk fx_conn fx_elapse fx_payer 0 = (Inr (), t, 9) \<and>
     prefix (steps t) main_steps \<and>
     (\<exists>slot w1 bh1 w2 msg1 tx1 txid1 w3 res1 w4 bh2 w5 msg2 tx2 txid2 w6 res2 w7
          fetched w8 t3.
        let pk = publicKey fx_payer;
            created = createLookupTable fx_sdk pk pk slot;
            a = snd created;
            submitted = (\<lambda>bh message msg tx args txid.
              [Ev_getLatestBlockhash Finalized,
               Log (L_blockhash (lastValidBlockHeight bh)),
               Ev_compileToV0Message message None,
               Log L_compiled,
               Ev_sign (newVersionedTransaction fx_sdk msg) [fx_payer],
               Log L_signed,
               Ev_sendTransaction tx,
               Ev_confirmTransaction args,
               Log (L_confirmed txid)]);
            message1 = \<lparr>payerKey = pk, recentBlockhash = blockhash bh1,
                         instructions = [fst created]\<rparr>;
            args1 = \<lparr>blockhash = blockhash bh1,
                      lastValidBlockHeight = lastValidBlockHeight bh1,
                      signature = txid1\<rparr>;
            message2 = \<lparr>payerKey = pk, recentBlockhash = blockhash bh2,
                         instructions =
                           [extendLookupTable fx_sdk pk pk a
                              [PublicKey ''8Z17Y623ZjNV8xaAdxgn5ZkqkVTEo8Yc6uaapvcrFB62'',
                               PublicKey ''846HwwmSGguDbipzs2xDYCsfyhi4j2LLiuQri11woums'',
                               PublicKey ''FueGNmz4M2wphGnDL5RuH2fCo6EQxxtheVn6syGE4Fh1'',
                               PublicKey ''8io2LqthLyQfFncj6QAaQ2q5d7z9WgRcVKrAz4DGNiee'']]\<rparr>;
            args2 = \<lparr>blockhash = blockhash bh2,
                      lastValidBlockHeight = lastValidBlockHeight bh2,
                      signature = txid2\<rparr>
        in getSlot fx_conn 0 = (Inr slot, w1) \<and>
           getLatestBlockhash fx_conn Finalized w1 = (Inr bh1, w2) \<and>
           compileToV0Message fx_sdk message1 None = Inr msg1 \<and>
           sign fx_sdk (newVersionedTransaction fx_sdk msg1) [fx_payer] = Inr tx1 \<and>
           sendTransaction fx_conn tx1 w2 = (Inr txid1, w3) \<and>
           confirmTransaction fx_conn args1 w3 = (Inr res1, w4) \<and>
           getLatestBlockhash fx_conn Finalized (fx_elapse 60000 w4) = (Inr bh2, w5) \<and>
           compileToV0Message fx_sdk message2 None = Inr msg2 \<and>
           sign fx_sdk (newVersionedTransaction fx_sdk msg2) [fx_payer] = Inr tx2 \<and>
           sendTransaction fx_conn tx2 w5 = (Inr txid2, w6) \<and>
           confirmTransaction fx_conn args2 w6 = (Inr res2, w7) \<and>
           getAddressLookupTable fx_conn a w7 = (Inr fetched, w8) \<and>
           (case fetched of
              None \<Rightarrow> t3 = [Ev_getAddressLookupTable a] \<and> 9 = w8
            | Some lookupTable \<Rightarrow>
                (\<exists>bh3 mWith mWithout txWith txWithout bytesWithout bytesWith.
                   let message3 =
                         \<lparr>payerKey = pk, recentBlockhash = blockhash bh3,
                          instructions =
                            map (\<lambda>address. transfer fx_sdk pk address 1000000)
                              (addresses (state lookupTable))\<rparr>
                   in getLatestBlockhash fx_conn Finalized w8 = (Inr bh3, 9) \<and>
                      compileToV0Message fx_sdk message3 (Some [lookupTable]) = Inr mWith \<and>
                      compileToV0Message fx_sdk message3 None = Inr mWithout \<and>
                      sign fx_sdk (newVersionedTransaction fx_sdk mWith) [fx_payer] = Inr txWith \<and>
                      sign fx_sdk (newVersionedTransaction fx_sdk mWithout) [fx_payer]
                        = Inr txWithout \<and>
                      serialize fx_sdk txWithout = Inr bytesWithout \<and>
                      serialize fx_sdk txWith = Inr bytesWith \<and>
                      t3 = [Ev_getAddressLookupTable a,
                            Log (L_fetched_table (key lookupTable)),
                            Ev_getLatestBlockhash Finalized,
                            Log (L_blockhash (lastValidBlockHeight bh3)),
                            Ev_compileToV0Message message3 (Some [lookupTable]),
                            Ev_sign (newVersionedTransaction fx_sdk mWith) [fx_payer],
                            Ev_compileToV0Message message3 None,
                            Ev_sign (newVersionedTransaction fx_sdk mWithout) [fx_payer],
                            Log L_compiled_txs,
                            Ev_serialize txWithout,
                            Log (L_size_without (length bytesWithout)),
                            Ev_serialize txWith,
                            Log (L_size_with (length bytesWith))])) \<and>
           t = [Log L_step1, Ev_getSlot, Log (L_slot slot), Log (L_table_address a)]
                 @ submitted bh1 message1 msg1 tx1 args1 txid1
                 @ [Log L_created, Log L_waiting, Ev_setTimeout 60000, Log L_step2]
                 @ submitted bh2 message2 msg2 tx2 args2 txid2
                 @ [Log (L_entries a), Log L_step3]
                 @ t3)"
proof -
  have "\<exists>t. main fx_sdk fx_conn fx_elapse fx_payer 0 = (Inr (), t, 9)"
    by (simp add: main_def createALTs_def addAddress_def compareTxSize_def
        createAndSendV0Tx_def setTimeout_def then_do_def request_def sdk_call_def
        console_log_def ret_def Let_def numeral_2_eq_2
        fx_sdk_def fx_conn_def fx_elapse_def fx_payer_def fx_table_def fx_table_address_def)
  then obtain t where run: "main fx_sdk fx_conn fx_elapse fx_payer 0 = (Inr (), t, 9)"
    by blast
  note both = main_sequence [OF run]
  from both have order: "prefix (steps t) main_steps"
    by (rule conjunct1)
  from both have calls: "(\<exists>slot w1 bh1 w2 msg1 tx1 txid1 w3 res1 w4 bh2 w5 msg2 tx2 txid2 w6 res2 w7
          fetched w8 t3.
        let pk = publicKey fx_payer;
            created = createLookupTable fx_sdk pk pk slot;
            a = snd created;
            submitted = (\<lambda>bh message msg tx args txid.
              [Ev_getLatestBlockhash Finalized,
               Log (L_blockhash (lastValidBlockHeight bh)),
               Ev_compileToV0Message message None,
               Log L_compiled,
               Ev_sign (newVersionedTransaction fx_sdk msg) [fx_payer],
               Log L_signed,
               Ev_sendTransaction tx,
               Ev_confirmTransaction args,
               Log (L_confirmed txid)]);
            message1 = \<lparr>payerKey = pk, recentBlockhash = blockhash bh1,
                         instructions = [fst created]\<rparr>;
            args1 = \<lparr>blockhash = blockhash bh1,
                      lastValidBlockHeight = lastValidBlockHeight bh1,
                      signature = txid1\<rparr>;
            message2 = \<lparr>payerKey = pk, recentBlockhash = blockhash bh2,
                         instructions =
                           [extendLookupTable fx_sdk pk pk a
                              [PublicKey ''8Z17Y623ZjNV8xaAdxgn5ZkqkVTEo8Yc6uaapvcrFB62'',
                               PublicKey ''846HwwmSGguDbipzs2xDYCsfyhi4j2LLiuQri11woums'',
                               PublicKey ''FueGNmz4M2wphGnDL5RuH2fCo6EQxxtheVn6syGE4Fh1'',
                               PublicKey ''8io2LqthLyQfFncj6QAaQ2q5d7z9WgRcVKrAz4DGNiee'']]\<rparr>;
            args2 = \<lparr>blockhash = blockhash bh2,
                      lastValidBlockHeight = lastValidBlockHeight bh2,
                      signature = txid2\<rparr>
        in getSlot fx_conn 0 = (Inr slot, w1) \<and>
           getLatestBlockhash fx_conn Finalized w1 = (Inr bh1, w2) \<and>
           compileToV0Message fx_sdk message1 None = Inr msg1 \<and>
           sign fx_sdk (newVersionedTransaction fx_sdk msg1) [fx_payer] = Inr tx1 \<and>
           sendTransaction fx_conn tx1 w2 = (Inr txid1, w3) \<and>
           confirmTransaction fx_conn args1 w3 = (Inr res1, w4) \<and>
           getLatestBlockhash fx_conn Finalized (fx_elapse 60000 w4) = (Inr bh2, w5) \<and>
           compileToV0Message fx_sdk message2 None = Inr msg2 \<and>
           sign fx_sdk (newVersionedTransaction fx_sdk msg2) [fx_payer] = Inr tx2 \<and>
           sendTransaction fx_conn tx2 w5 = (Inr txid2, w6) \<and>
           confirmTransaction fx_conn args2 w6 = (Inr res2, w7) \<and>
           getAddressLookupTable fx_conn a w7 = (Inr fetched, w8) \<and>
           (case fetched of
              None \<Rightarrow> t3 = [Ev_getAddressLookupTable a] \<and> 9 = w8
            | Some lookupTable \<Rightarrow>
                (\<exists>bh3 mWith mWithout txWith txWithout bytesWithout bytesWith.
                   let message3 =
                         \<lparr>payerKey = pk, recentBlockhash = blockhash bh3,
                          instructions =
                            map (\<lambda>address. transfer fx_sdk pk address 1000000)
                              (addresses (state lookupTable))\<rparr>
                   in getLatestBlockhash fx_conn Finalized w8 = (Inr bh3, 9) \<and>
                      compileToV0Message fx_sdk message3 (Some [lookupTable]) = Inr mWith \<and>
                      compileToV0Message fx_sdk message3 None = Inr mWithout \<and>
                      sign fx_sdk (newVersionedTransaction fx_sdk mWith) [fx_payer] = Inr txWith \<and>
                      sign fx_sdk (newVersionedTransaction fx_sdk mWithout) [fx_payer]
                        = Inr txWithout \<and>
                      serialize fx_sdk txWithout = Inr bytesWithout \<and>
                      serialize fx_sdk txWith = Inr bytesWith \<and>
                      t3 = [Ev_getAddressLookupTable a,
                            Log (L_fetched_table (key lookupTable)),
                            Ev_getLatestBlockhash Finalized,
                            Log (L_blockhash (lastValidBlockHeight bh3)),
                            Ev_compileToV0Message message3 (Some [lookupTable]),
                            Ev_sign (newVersionedTransaction fx_sdk mWith) [fx_payer],
                            Ev_compileToV0Message message3 None,
                            Ev_sign (newVersionedTransaction fx_sdk mWithout) [fx_payer],
                            Log L_compiled_txs,
                            Ev_serialize txWithout,
                            Log (L_size_without (length bytesWithout)),
                            Ev_serialize txWith,
                            Log (L_size_with (length bytesWith))])) \<and>
           t = [Log L_step1, Ev_getSlot, Log (L_slot slot), Log (L_table_address a)]
                 @ submitted bh1 message1 msg1 tx1 args1 txid1
                 @ [Log L_created, Log L_waiting, Ev_setTimeout 60000, Log L_step2]
                 @ submitted bh2 message2 msg2 tx2 args2 txid2
                 @ [Log (L_entries a), Log L_step3]
                 @ t3)"
    by (rule conjunct2 [THEN mp]) (rule refl)
  show ?thesis
    by (rule exI [of _ t]) (intro conjI run order calls)
qed

end
